theory Spec2Isabelle
  imports Main
begin

section \<open>The GraphQL client of isar-exr: \<^verbatim>\<open>src/isar_exr/api/graphql_client.py\<close>\<close>

text \<open>
  The class \<^verbatim>\<open>GraphqlClient\<close> keeps an authenticated session to a remote GraphQL
  service and retries a query once, with a fresh token, when the failure looks
  like an expired token. Its methods are embedded as functions that pass the
  object (\<open>self\<close>) and the outside world explicitly and return either the
  raised exception (\<open>Inl\<close>) or the returned value (\<open>Inr\<close>).
\<close>

subsection \<open>Values and exceptions\<close>

text \<open>Python values as they occur in \<^verbatim>\<open>Dict[str, Any]\<close>: JSON-like data.\<close>

datatype pyval =
    PNone
  | PBool bool
  | PInt int
  | PStr string
  | PList "pyval list"
  | PDict "(string \<times> pyval) list"

type_synonym pydict = "(string \<times> pyval) list"

text \<open>
  The exceptions the \<^verbatim>\<open>except\<close> clauses of \<^verbatim>\<open>query\<close> tell apart, in the order
  of the clauses. None of these classes is a subclass of another one of them, so
  the first matching clause is the only matching one, up to the last clause
  \<^verbatim>\<open>except Exception\<close>, which takes every other subclass of \<^verbatim>\<open>Exception\<close>
  (\<open>OtherException\<close>). Each exception carries its message (\<^verbatim>\<open>str(e)\<close>);
  \<open>TransportQueryError\<close> also carries its rendered \<^verbatim>\<open>errors\<close> attribute and
  \<open>TransportServerError\<close> its \<^verbatim>\<open>code\<close>, an \<^verbatim>\<open>Optional[int]\<close>.
  Exceptions outside \<^verbatim>\<open>Exception\<close> (\<^verbatim>\<open>KeyboardInterrupt\<close>, \<^verbatim>\<open>SystemExit\<close>) are not
  modelled.
\<close>

datatype exc =
    GraphQLError string
  | TransportProtocolError string
  | TransportQueryError string string
  | TransportClosed string
  | TransportServerError string "int option"
  | TransportAlreadyConnected string
  | ReadTimeout string
  | ConnectTimeout string
  | OtherException string

fun str_exc :: "exc \<Rightarrow> string" where
  "str_exc (GraphQLError m) = m"
| "str_exc (TransportProtocolError m) = m"
| "str_exc (TransportQueryError m errors) = m"
| "str_exc (TransportClosed m) = m"
| "str_exc (TransportServerError m code) = m"
| "str_exc (TransportAlreadyConnected m) = m"
| "str_exc (ReadTimeout m) = m"
| "str_exc (ConnectTimeout m) = m"
| "str_exc (OtherException m) = m"

subsection \<open>Objects of the gql library\<close>

datatype document_node = DocumentNode string

datatype graphql_schema = GraphQLSchema string

datatype transport = HTTPXTransport (url: string) (headers: "(string \<times> string) list")

datatype client = Client (client_transport: transport) (client_schema: graphql_schema)

datatype session = SyncClientSession client

datatype dsl_schema = DSLSchema graphql_schema

subsection \<open>The object\<close>

text \<open>The attributes of a \<^verbatim>\<open>GraphqlClient\<close> (the logger apart, which never changes).\<close>

record graphql_client =
  reauthenticated :: bool
  document :: document_node
  schema :: dsl_schema
  client :: client
  session :: session

subsection \<open>The outside world\<close>

text \<open>
  What the module imports and does not define is a parameter of the model: the
  settings, \<^verbatim>\<open>get_access_token\<close>, the file system and the gql and graphql
  libraries. Calls with an effect take the state \<open>'w\<close> of the outside world and
  return the next one, so that successive calls may answer differently.
\<close>

record 'w env =
  ROBOT_API_URL :: string
  PATH_TO_GRAPHQL_SCHEMA :: string
  get_access_token :: "'w \<Rightarrow> (exc + string) \<times> 'w"
  read_file :: "string \<Rightarrow> 'w \<Rightarrow> (exc + string) \<times> 'w"
  parse :: "string \<Rightarrow> exc + document_node"
  build_ast_schema :: "document_node \<Rightarrow> exc + graphql_schema"
  connect_sync :: "client \<Rightarrow> 'w \<Rightarrow> (exc + session) \<times> 'w"
  execute :: "session \<Rightarrow> document_node \<Rightarrow> pydict \<Rightarrow> 'w \<Rightarrow> (exc + pydict) \<times> 'w"

text \<open>
  The trace records, in order, every call that leaves the object together with
  its outcome, every log record and every assignment to \<^verbatim>\<open>self._reauthenticated\<close>.
\<close>

datatype level = Error | Critical

datatype event =
    EvGetAccessToken "exc + string"
  | EvReadFile string "exc + string"
  | EvConnectSync client "exc + session"
  | EvExecute session document_node pydict "exc + pydict"
  | EvLog level string
  | EvSetReauthenticated bool

record 'w world =
  external :: 'w
  trace :: "event list"

definition emit :: "event \<Rightarrow> 'w world \<Rightarrow> 'w world" where
  "emit ev w = w\<lparr>trace := trace w @ [ev]\<rparr>"

definition logger_error :: "string \<Rightarrow> 'w world \<Rightarrow> 'w world" where
  "logger_error msg w = emit (EvLog Error msg) w"

definition logger_critical :: "string \<Rightarrow> 'w world \<Rightarrow> 'w world" where
  "logger_critical msg w = emit (EvLog Critical msg) w"

definition call_get_access_token :: "'w env \<Rightarrow> 'w world \<Rightarrow> (exc + string) \<times> 'w world" where
  "call_get_access_token env w =
     (case get_access_token env (external w) of
        (r, x) \<Rightarrow> (r, emit (EvGetAccessToken r) (w\<lparr>external := x\<rparr>)))"

definition call_read_file :: "'w env \<Rightarrow> string \<Rightarrow> 'w world \<Rightarrow> (exc + string) \<times> 'w world" where
  "call_read_file env path w =
     (case read_file env path (external w) of
        (r, x) \<Rightarrow> (r, emit (EvReadFile path r) (w\<lparr>external := x\<rparr>)))"

definition client_connect_sync :: "'w env \<Rightarrow> client \<Rightarrow> 'w world \<Rightarrow> (exc + session) \<times> 'w world" where
  "client_connect_sync env c w =
     (case connect_sync env c (external w) of
        (r, x) \<Rightarrow> (r, emit (EvConnectSync c r) (w\<lparr>external := x\<rparr>)))"

definition session_execute ::
  "'w env \<Rightarrow> session \<Rightarrow> document_node \<Rightarrow> pydict \<Rightarrow> 'w world \<Rightarrow> (exc + pydict) \<times> 'w world" where
  "session_execute env s q query_parameters w =
     (case execute env s q query_parameters (external w) of
        (r, x) \<Rightarrow> (r, emit (EvExecute s q query_parameters r) (w\<lparr>external := x\<rparr>)))"

text \<open>The assignment \<^verbatim>\<open>self._reauthenticated = b\<close>.\<close>

definition set_reauthenticated ::
  "bool \<Rightarrow> graphql_client \<times> 'w world \<Rightarrow> graphql_client \<times> 'w world" where
  "set_reauthenticated b sw =
     (case sw of (self, w) \<Rightarrow> (self\<lparr>reauthenticated := b\<rparr>, emit (EvSetReauthenticated b) w))"

subsection \<open>Building the session\<close>

text \<open>\<^verbatim>\<open>_get_updated_auth_header\<close>: the token, or the logged and re-raised failure.\<close>

definition get_updated_auth_header ::
  "'w env \<Rightarrow> 'w world \<Rightarrow> (exc + (string \<times> string) list) \<times> 'w world" where
  "get_updated_auth_header env w =
     (case call_get_access_token env w of
        (Inl e, w1) \<Rightarrow>
          (Inl e, logger_critical (''CRITICAL - Error getting access token: '' @ [CHR 0x0A] @ str_exc e) w1)
      | (Inr token, w1) \<Rightarrow>
          (Inr [(''authorization'', ''Bearer '' @ token)], w1))"

text \<open>
  \<^verbatim>\<open>_refresh_session\<close>. The two assignments are separate statements: when
  \<^verbatim>\<open>connect_sync\<close> raises, \<^verbatim>\<open>self.client\<close> is already the new client.
\<close>

definition refresh_session ::
  "'w env \<Rightarrow> graphql_client \<Rightarrow> 'w world \<Rightarrow> (exc + unit) \<times> graphql_client \<times> 'w world" where
  "refresh_session env self w =
     (case get_updated_auth_header env w of
        (Inl e, w1) \<Rightarrow> (Inl e, self, w1)
      | (Inr auth_header, w1) \<Rightarrow>
          (let transport = HTTPXTransport (ROBOT_API_URL env) auth_header in
           case build_ast_schema env (document self) of
             Inl e \<Rightarrow> (Inl e, self, w1)
           | Inr gschema \<Rightarrow>
               (let self1 = self\<lparr>client := Client transport gschema\<rparr> in
                case client_connect_sync env (client self1) w1 of
                  (Inl e, w2) \<Rightarrow> (Inl e, self1, w2)
                | (Inr sess, w2) \<Rightarrow> (Inr (), self1\<lparr>session := sess\<rparr>, w2))))"

text \<open>
  \<^verbatim>\<open>_initialize_session\<close>, called from \<^verbatim>\<open>__init__\<close> on the object that has only
  its flag yet (\<open>flag\<close>); it returns the finished object, or the exception that
  ends the construction.
\<close>

definition initialize_session ::
  "'w env \<Rightarrow> bool \<Rightarrow> 'w world \<Rightarrow> (exc + graphql_client) \<times> 'w world" where
  "initialize_session env flag w =
     (case get_updated_auth_header env w of
        (Inl e, w1) \<Rightarrow> (Inl e, w1)
      | (Inr auth_header, w1) \<Rightarrow>
          (case call_read_file env (PATH_TO_GRAPHQL_SCHEMA env) w1 of
             (Inl e, w2) \<Rightarrow> (Inl e, w2)
           | (Inr source, w2) \<Rightarrow>
               (case parse env source of
                  Inl e \<Rightarrow> (Inl e, w2)
                | Inr doc \<Rightarrow>
                    (case build_ast_schema env doc of
                       Inl e \<Rightarrow> (Inl e, w2)
                     | Inr gschema \<Rightarrow>
                         (let transport = HTTPXTransport (ROBOT_API_URL env) auth_header;
                              c = Client transport gschema
                          in case client_connect_sync env c w2 of
                               (Inl e, w3) \<Rightarrow> (Inl e, w3)
                             | (Inr sess, w3) \<Rightarrow>
                                 (Inr \<lparr>reauthenticated = flag, document = doc,
                                       schema = DSLSchema (client_schema c),
                                       client = c, session = sess\<rparr>, w3))))))"

text \<open>\<^verbatim>\<open>__init__\<close>.\<close>

definition init :: "'w env \<Rightarrow> 'w world \<Rightarrow> (exc + graphql_client) \<times> 'w world" where
  "init env w = initialize_session env False (emit (EvSetReauthenticated False) w)"

subsection \<open>The query\<close>

text \<open>The \<^verbatim>\<open>finally\<close> clause of \<^verbatim>\<open>query\<close>, run on every way out of the \<^verbatim>\<open>try\<close>.\<close>

definition finally_reset ::
  "(exc + pydict) \<times> graphql_client \<times> 'w world \<Rightarrow> (exc + pydict) \<times> graphql_client \<times> 'w world" where
  "finally_reset out =
     (case out of (r, self, w) \<Rightarrow>
        (case set_reauthenticated False (self, w) of (self1, w1) \<Rightarrow> (r, self1, w1)))"

text \<open>
  \<^verbatim>\<open>query\<close>. An exception raised inside an \<^verbatim>\<open>except\<close> clause (by
  \<^verbatim>\<open>_refresh_session\<close> or by the recursive call) is not handled by the other
  clauses of the same \<^verbatim>\<open>try\<close>: it leaves through \<^verbatim>\<open>finally\<close>. The recursive call
  is the source's; it is made only with the flag unset and runs with the flag
  set, which is why the function terminates.
\<close>

function query ::
  "'w env \<Rightarrow> graphql_client \<Rightarrow> document_node \<Rightarrow> pydict \<Rightarrow> 'w world
     \<Rightarrow> (exc + pydict) \<times> graphql_client \<times> 'w world" where
  "query env self q query_parameters w =
     finally_reset
       (case session_execute env (session self) q query_parameters w of
          (Inr response, w1) \<Rightarrow> (Inr response, self, w1)
        | (Inl e, w1) \<Rightarrow>
            (case e of
               GraphQLError m \<Rightarrow>
                 (Inl e, self,
                  logger_error (''Something went wrong while sending the GraphQL query: '' @ m) w1)
             | TransportProtocolError m \<Rightarrow>
                 if reauthenticated self then
                   (Inl e, self,
                    logger_error ''Transport protocol error - Error in configuration of GraphQL client even after reauthentication'' w1)
                 else
                   (case refresh_session env self w1 of
                      (Inl e', self1, w2) \<Rightarrow> (Inl e', self1, w2)
                    | (Inr u, self1, w2) \<Rightarrow>
                        (case set_reauthenticated True (self1, w2) of
                           (self2, w3) \<Rightarrow> query env self2 q query_parameters w3))
             | TransportQueryError m errors \<Rightarrow>
                 (Inl e, self,
                  logger_error (''The Energy Robotics server returned an error: '' @ errors) w1)
             | TransportClosed m \<Rightarrow>
                 (Inl e, self, logger_error ''The connection to the GraphQL endpoint is closed'' w1)
             | TransportServerError m code \<Rightarrow>
                 if code = Some 302 then
                   if reauthenticated self then
                     (Inl e, self,
                      logger_error ''Transport server error - Error in Energy Robotics server even after reauthentication'' w1)
                   else
                     (case refresh_session env self w1 of
                        (Inl e', self1, w2) \<Rightarrow> (Inl e', self1, w2)
                      | (Inr u, self1, w2) \<Rightarrow>
                          (case set_reauthenticated True (self1, w2) of
                             (self2, w3) \<Rightarrow> query env self2 q query_parameters w3))
                 else
                   (Inl e, self, logger_error (''Error in Energy Robotics server: '' @ m) w1)
             | TransportAlreadyConnected m \<Rightarrow>
                 (Inl e, self, logger_error (''The transport is already connected: '' @ m) w1)
             | ReadTimeout m \<Rightarrow>
                 (Inl e, self, logger_error (''Request to GraphQL API timed out: '' @ m) w1)
             | ConnectTimeout m \<Rightarrow>
                 (Inl e, self, logger_error (''Connection to GraphQL API timed out: '' @ m) w1)
             | OtherException m \<Rightarrow>
                 (Inl e, self, logger_error (''Unknown error in GraphQL client: '' @ m) w1)))"
  by pat_completeness auto
termination
  by (relation "measure (\<lambda>(env, self, q, query_parameters, w). if reauthenticated self then 0 else 1)")
     (auto simp: set_reauthenticated_def)

declare query.simps [simp del]

subsection \<open>Reading the trace\<close>

text \<open>The events a call has added to the trace: those of \<open>w'\<close> after those of \<open>w\<close>.\<close>

definition new_events :: "'w world \<Rightarrow> 'w world \<Rightarrow> event list" where
  "new_events w w' = drop (length (trace w)) (trace w')"

fun is_token_request :: "event \<Rightarrow> bool" where
  "is_token_request (EvGetAccessToken r) = True"
| "is_token_request ev = False"

fun is_read_file :: "event \<Rightarrow> bool" where
  "is_read_file (EvReadFile path r) = True"
| "is_read_file ev = False"

fun is_connect :: "event \<Rightarrow> bool" where
  "is_connect (EvConnectSync c r) = True"
| "is_connect ev = False"

fun is_execute :: "event \<Rightarrow> bool" where
  "is_execute (EvExecute s q query_parameters r) = True"
| "is_execute ev = False"

fun is_log :: "event \<Rightarrow> bool" where
  "is_log (EvLog l msg) = True"
| "is_log ev = False"

fun is_flag_set :: "event \<Rightarrow> bool" where
  "is_flag_set (EvSetReauthenticated b) = True"
| "is_flag_set ev = False"

text \<open>
  Every call of \<^verbatim>\<open>_refresh_session\<close> asks for a token once, as its first step, and
  nothing else inside \<^verbatim>\<open>query\<close> asks for one: the token requests of a call of
  \<^verbatim>\<open>query\<close> count its session rebuilds.
\<close>

definition rebuilds :: "event list \<Rightarrow> nat" where
  "rebuilds evs = length (filter is_token_request evs)"

definition attempts :: "event list \<Rightarrow> event list" where
  "attempts evs = filter is_execute evs"

text \<open>
  \<open>is_flag_raise\<close>: the assignment \<^verbatim>\<open>self._reauthenticated = True\<close>.
  \<open>precedes P Q evs\<close>: some event with \<open>P\<close> comes before some event with \<open>Q\<close>.
\<close>

fun is_flag_raise :: "event \<Rightarrow> bool" where
  "is_flag_raise (EvSetReauthenticated b) = b"
| "is_flag_raise ev = False"

fun precedes :: "(event \<Rightarrow> bool) \<Rightarrow> (event \<Rightarrow> bool) \<Rightarrow> event list \<Rightarrow> bool" where
  "precedes P Q [] = False"
| "precedes P Q (ev # evs) = ((P ev \<and> list_ex Q evs) \<or> precedes P Q evs)"

text \<open>
  The failures that \<^verbatim>\<open>query\<close> answers with a new session when the flag is unset:
  \<^verbatim>\<open>TransportProtocolError\<close>, and \<^verbatim>\<open>TransportServerError\<close> with \<^verbatim>\<open>e.code == 302\<close>.
\<close>

fun stale_auth :: "exc \<Rightarrow> bool" where
  "stale_auth (TransportProtocolError m) = True"
| "stale_auth (TransportServerError m code) = (code = Some 302)"
| "stale_auth e = False"

subsection \<open>A scripted outside world\<close>

text \<open>
  For running the model on concrete inputs: the outside world is a pair of
  scripts, the answers of the successive calls of \<^verbatim>\<open>get_access_token\<close> and of
  \<^verbatim>\<open>session.execute\<close>. Reading the schema, parsing it and connecting succeed.
\<close>

type_synonym script = "(exc + string) list \<times> (exc + pydict) list"

definition scripted_env :: "script env" where
  "scripted_env =
     \<lparr>ROBOT_API_URL = ''https://robot.example/graphql'',
      PATH_TO_GRAPHQL_SCHEMA = ''schema.graphql'',
      get_access_token = (\<lambda>x. case x of (ts, rs) \<Rightarrow>
         (case ts of [] \<Rightarrow> (Inl (OtherException ''no token''), (ts, rs))
                   | t # ts' \<Rightarrow> (t, (ts', rs)))),
      read_file = (\<lambda>path x. (Inr ''type Query'', x)),
      parse = (\<lambda>source. Inr (DocumentNode source)),
      build_ast_schema = (\<lambda>d. case d of DocumentNode source \<Rightarrow> Inr (GraphQLSchema source)),
      connect_sync = (\<lambda>c x. (Inr (SyncClientSession c), x)),
      execute = (\<lambda>s q query_parameters x. case x of (ts, rs) \<Rightarrow>
         (case rs of [] \<Rightarrow> (Inl (TransportClosed ''closed''), (ts, rs))
                   | r # rs' \<Rightarrow> (r, (ts, rs'))))\<rparr>"

definition start :: "script \<Rightarrow> script world" where
  "start x = \<lparr>external = x, trace = []\<rparr>"

text \<open>The client with the token \<open>t\<close>, as \<open>init\<close> builds it in the scripted world.\<close>

definition client_with :: "string \<Rightarrow> client" where
  "client_with t =
     Client (HTTPXTransport ''https://robot.example/graphql'' [(''authorization'', ''Bearer '' @ t)])
            (GraphQLSchema ''type Query'')"

definition self0 :: graphql_client where
  "self0 =
     \<lparr>reauthenticated = False, document = DocumentNode ''type Query'',
      schema = DSLSchema (GraphQLSchema ''type Query''),
      client = client_with ''t0'', session = SyncClientSession (client_with ''t0'')\<rparr>"

definition q0 :: document_node where
  "q0 = DocumentNode ''query { robots { id } }''"

definition p0 :: pydict where
  "p0 = [(''site'', PStr ''A'')]"

definition ok0 :: pydict where
  "ok0 = [(''robots'', PList [])]"

text \<open>
  Scripts for the examples. \<open>twice_stale\<close>: the first attempt fails with a protocol
  error and the retry with a server error of code 302; a third answer is ready
  and is never asked for.
\<close>

definition twice_stale :: "script world" where
  "twice_stale =
     start ([Inr ''t1'', Inr ''t2''],
            [Inl (TransportProtocolError ''bad''), Inl (TransportServerError ''Found'' (Some 302)), Inr ok0])"

text \<open>
  \<open>stale_then_ok\<close>: a protocol error, then a response. \<open>redirect_then_denied\<close>
  and \<open>stale_then_denied\<close>: a server error of code 302, or a protocol error,
  and then no token. \<open>timeout\<close>: a read timeout. \<open>all_ok\<close>: a response at once.
\<close>

definition stale_then_ok :: "script world" where
  "stale_then_ok = start ([Inr ''t1''], [Inl (TransportProtocolError ''bad''), Inr ok0])"

definition redirect_then_denied :: "script world" where
  "redirect_then_denied =
     start ([Inl (OtherException ''denied'')],
            [Inl (TransportServerError ''Found'' (Some 302)), Inr ok0])"

definition stale_then_denied :: "script world" where
  "stale_then_denied =
     start ([Inl (OtherException ''denied'')], [Inl (TransportProtocolError ''bad''), Inr ok0])"

definition timeout :: "script world" where
  "timeout = start ([Inr ''t1''], [Inl (ReadTimeout ''slow''), Inr ok0])"

definition all_ok :: "script world" where
  "all_ok = start ([Inr ''t1''], [Inr ok0])"

text \<open>\<open>server_error_500\<close>: a server error whose code is not 302.\<close>

definition server_error_500 :: "script world" where
  "server_error_500 =
     start ([Inr ''t1''], [Inl (TransportServerError ''Internal Server Error'' (Some 500)), Inr ok0])"

section \<open>Auxiliary facts\<close>

subsection \<open>How \<open>query\<close> unfolds\<close>

text \<open>The four ways through \<^verbatim>\<open>query\<close>, by the outcome of the attempt.\<close>

lemma query_success:
  assumes "session_execute env (session self) q p w = (Inr response, w1)"
  shows "query env self q p w = finally_reset (Inr response, self, w1)"
  using assms by (simp add: query.simps)

lemma query_fail_direct:
  assumes "session_execute env (session self) q p w = (Inl e, w1)"
    and "\<not> stale_auth e \<or> reauthenticated self"
  shows "\<exists>msg. query env self q p w = finally_reset (Inl e, self, logger_error msg w1)"
  using assms by (cases e) (auto simp add: query.simps)

lemma query_rebuild_fails:
  assumes "session_execute env (session self) q p w = (Inl e, w1)"
    and "stale_auth e" and "\<not> reauthenticated self"
    and "refresh_session env self w1 = (Inl e', self1, w2)"
  shows "query env self q p w = finally_reset (Inl e', self1, w2)"
  using assms by (cases e) (auto simp add: query.simps)

lemma query_retry:
  assumes "session_execute env (session self) q p w = (Inl e, w1)"
    and "stale_auth e" and "\<not> reauthenticated self"
    and "refresh_session env self w1 = (Inr u, self1, w2)"
  shows "query env self q p w =
         finally_reset (query env (self1\<lparr>reauthenticated := True\<rparr>) q p
                          (emit (EvSetReauthenticated True) w2))"
  using assms by (cases e) (auto simp add: query.simps set_reauthenticated_def)

lemma not_stale_auth_iff:
  "\<not> stale_auth e \<longleftrightarrow>
     (\<exists>m. e = GraphQLError m) \<or> (\<exists>m errors. e = TransportQueryError m errors)
   \<or> (\<exists>m. e = TransportClosed m) \<or> (\<exists>m code. e = TransportServerError m code \<and> code \<noteq> Some 302)
   \<or> (\<exists>m. e = TransportAlreadyConnected m) \<or> (\<exists>m. e = ReadTimeout m)
   \<or> (\<exists>m. e = ConnectTimeout m) \<or> (\<exists>m. e = OtherException m)"
  by (cases e) auto

subsection \<open>What each step adds to the trace\<close>

lemma trace_emit [simp]: "trace (emit ev w) = trace w @ [ev]"
  by (simp add: emit_def)

lemma trace_logger_error [simp]: "trace (logger_error msg w) = trace w @ [EvLog Error msg]"
  by (simp add: logger_error_def)

lemma new_events_append: "trace w' = trace w @ evs \<Longrightarrow> new_events w w' = evs"
  by (simp add: new_events_def)

lemma finally_reset_eq:
  "finally_reset (r, self, w) =
     (r, self\<lparr>reauthenticated := False\<rparr>, emit (EvSetReauthenticated False) w)"
  by (simp add: finally_reset_def set_reauthenticated_def)

lemma session_execute_trace:
  assumes "session_execute env s q p w = (r, w1)"
  shows "trace w1 = trace w @ [EvExecute s q p r]"
  using assms by (auto simp: session_execute_def split: prod.splits)

lemma refresh_session_trace:
  assumes "refresh_session env self w = (r, self1, w1)"
  shows "\<exists>t evs. trace w1 = trace w @ EvGetAccessToken t # evs \<and> length evs \<le> 1
                \<and> list_all (\<lambda>ev. is_log ev \<or> is_connect ev) evs"
  using assms
  by (auto simp: refresh_session_def get_updated_auth_header_def call_get_access_token_def
                 logger_critical_def client_connect_sync_def Let_def
           split: prod.splits sum.splits)

text \<open>With the flag set, \<^verbatim>\<open>query\<close> makes its one attempt and hands its outcome on.\<close>

lemma query_flag_set_trace:
  assumes "reauthenticated self" and "query env self q p w = (r, self', w')"
  shows "\<exists>logs. trace w' = trace w @ EvExecute (session self) q p r # logs @ [EvSetReauthenticated False]
               \<and> list_all is_log logs \<and> length logs \<le> 1
               \<and> self' = self\<lparr>reauthenticated := False\<rparr>"
proof (cases "session_execute env (session self) q p w")
  case (Pair r1 w1)
  note tr = session_execute_trace [OF Pair]
  show ?thesis
  proof (cases r1)
    case (Inl e)
    with Pair assms(1) obtain msg where
      "query env self q p w = finally_reset (Inl e, self, logger_error msg w1)"
      using query_fail_direct by blast
    with assms(2) tr Inl show ?thesis
      by (auto simp: finally_reset_eq)
  next
    case (Inr response)
    with Pair have "query env self q p w = finally_reset (Inr response, self, w1)"
      using query_success by blast
    with assms(2) tr Inr show ?thesis
      by (auto simp: finally_reset_eq)
  qed
qed

subsection \<open>The events of a call of \<open>query\<close>, path by path\<close>

lemma filter_logs_connects:
  assumes "list_all (\<lambda>ev. is_log ev \<or> is_connect ev) evs"
  shows "filter is_execute evs = [] \<and> filter is_token_request evs = []
       \<and> filter is_flag_set evs = [] \<and> filter is_read_file evs = []"
  using assms
proof (induction evs)
  case Nil
  then show ?case by simp
next
  case (Cons ev evs)
  then show ?case by (cases ev) auto
qed

lemma filter_logs:
  assumes "list_all is_log evs"
  shows "filter is_execute evs = [] \<and> filter is_token_request evs = []
       \<and> filter is_flag_set evs = [] \<and> filter is_read_file evs = []
       \<and> filter is_connect evs = []"
  using assms
proof (induction evs)
  case Nil
  then show ?case by simp
next
  case (Cons ev evs)
  then show ?case by (cases ev) auto
qed

lemma query_direct_trace:
  assumes "session_execute env (session self) q p w = (r1, w1)"
    and "\<forall>e. r1 = Inl e \<longrightarrow> \<not> stale_auth e \<or> reauthenticated self"
    and "query env self q p w = (r, self', w')"
  shows "\<exists>logs. new_events w w' = EvExecute (session self) q p r1 # logs @ [EvSetReauthenticated False]
               \<and> list_all is_log logs \<and> length logs \<le> 1
               \<and> r = r1 \<and> self' = self\<lparr>reauthenticated := False\<rparr>"
proof (cases r1)
  case (Inl e)
  with assms(1,2) obtain msg where
    "query env self q p w = finally_reset (Inl e, self, logger_error msg w1)"
    using query_fail_direct by blast
  with assms(3) session_execute_trace [OF assms(1)] Inl show ?thesis
    by (auto simp: finally_reset_eq intro!: new_events_append)
next
  case (Inr response)
  with assms(1) have "query env self q p w = finally_reset (Inr response, self, w1)"
    using query_success by blast
  with assms(3) session_execute_trace [OF assms(1)] Inr show ?thesis
    by (auto simp: finally_reset_eq intro!: new_events_append)
qed

lemma query_rebuild_fails_trace:
  assumes "session_execute env (session self) q p w = (Inl e, w1)"
    and "stale_auth e" and "\<not> reauthenticated self"
    and "refresh_session env self w1 = (Inl e', self1, w2)"
    and "query env self q p w = (r, self', w')"
  shows "\<exists>t evs. new_events w w' =
                 EvExecute (session self) q p (Inl e) # EvGetAccessToken t # evs @ [EvSetReauthenticated False]
               \<and> list_all (\<lambda>ev. is_log ev \<or> is_connect ev) evs \<and> length evs \<le> 1
               \<and> r = Inl e' \<and> self' = self1\<lparr>reauthenticated := False\<rparr>"
proof -
  from refresh_session_trace [OF assms(4)] obtain t evs where
    evs: "trace w2 = trace w1 @ EvGetAccessToken t # evs" "length evs \<le> 1"
         "list_all (\<lambda>ev. is_log ev \<or> is_connect ev) evs"
    by blast
  have "query env self q p w = finally_reset (Inl e', self1, w2)"
    using query_rebuild_fails [OF assms(1-4)] .
  with assms(5) have res: "r = Inl e'" "self' = self1\<lparr>reauthenticated := False\<rparr>"
    "w' = emit (EvSetReauthenticated False) w2"
    by (auto simp: finally_reset_eq)
  have "trace w' = trace w @ (EvExecute (session self) q p (Inl e) # EvGetAccessToken t # evs @
                 [EvSetReauthenticated False])"
    using res evs session_execute_trace [OF assms(1)] by simp
  then have "new_events w w' = EvExecute (session self) q p (Inl e) # EvGetAccessToken t # evs @
                 [EvSetReauthenticated False]"
    by (rule new_events_append)
  with res evs show ?thesis
    by blast
qed

lemma query_retry_trace:
  assumes "session_execute env (session self) q p w = (Inl e, w1)"
    and "stale_auth e" and "\<not> reauthenticated self"
    and "refresh_session env self w1 = (Inr u, self1, w2)"
    and "query env self q p w = (r, self', w')"
  shows "\<exists>t evs logs. new_events w w' =
                 EvExecute (session self) q p (Inl e) # EvGetAccessToken t # evs @
                 EvSetReauthenticated True # EvExecute (session self1) q p r # logs @
                 [EvSetReauthenticated False, EvSetReauthenticated False]
               \<and> new_events w1 w2 = EvGetAccessToken t # evs
               \<and> list_all (\<lambda>ev. is_log ev \<or> is_connect ev) evs \<and> length evs \<le> 1
               \<and> list_all is_log logs \<and> length logs \<le> 1
               \<and> self' = self1\<lparr>reauthenticated := False\<rparr>"
proof -
  from refresh_session_trace [OF assms(4)] obtain t evs where
    evs: "trace w2 = trace w1 @ EvGetAccessToken t # evs" "length evs \<le> 1"
         "list_all (\<lambda>ev. is_log ev \<or> is_connect ev) evs"
    by blast
  let ?self2 = "self1\<lparr>reauthenticated := True\<rparr>"
  let ?w3 = "emit (EvSetReauthenticated True) w2"
  obtain r' s' w'' where inner: "query env ?self2 q p ?w3 = (r', s', w'')"
    by (cases "query env ?self2 q p ?w3") auto
  have outer: "query env self q p w = finally_reset (query env ?self2 q p ?w3)"
    using query_retry [OF assms(1-4)] .
  from query_flag_set_trace [OF _ inner] obtain logs where
    logs: "trace w'' = trace ?w3 @ EvExecute (session ?self2) q p r' # logs @ [EvSetReauthenticated False]"
          "list_all is_log logs" "length logs \<le> 1" "s' = ?self2\<lparr>reauthenticated := False\<rparr>"
    by auto
  from outer inner assms(5) have res: "r = r'" "self' = s'\<lparr>reauthenticated := False\<rparr>"
    "w' = emit (EvSetReauthenticated False) w''"
    by (auto simp: finally_reset_eq)
  have "trace w' = trace w @ (EvExecute (session self) q p (Inl e) # EvGetAccessToken t # evs @
                 EvSetReauthenticated True # EvExecute (session self1) q p r # logs @
                 [EvSetReauthenticated False, EvSetReauthenticated False])"
    using res logs evs session_execute_trace [OF assms(1)] by simp
  then have "new_events w w' = EvExecute (session self) q p (Inl e) # EvGetAccessToken t # evs @
                 EvSetReauthenticated True # EvExecute (session self1) q p r # logs @
                 [EvSetReauthenticated False, EvSetReauthenticated False]"
    by (rule new_events_append)
  moreover have "new_events w1 w2 = EvGetAccessToken t # evs"
    using evs(1) by (rule new_events_append)
  moreover have "self' = self1\<lparr>reauthenticated := False\<rparr>"
    using res logs by simp
  ultimately show ?thesis
    using evs logs by blast
qed

text \<open>The three paths, as a case distinction on the outcome of the first attempt.\<close>

lemma query_cases:
  assumes "session_execute env (session self) q p w = (r1, w1)"
  obtains (direct) "\<forall>e. r1 = Inl e \<longrightarrow> \<not> stale_auth e \<or> reauthenticated self"
  | (rebuild_fails) e e' self1 w2 where "r1 = Inl e" "stale_auth e" "\<not> reauthenticated self"
      "refresh_session env self w1 = (Inl e', self1, w2)"
  | (retry) e u self1 w2 where "r1 = Inl e" "stale_auth e" "\<not> reauthenticated self"
      "refresh_session env self w1 = (Inr u, self1, w2)"
proof (cases "\<forall>e. r1 = Inl e \<longrightarrow> \<not> stale_auth e \<or> reauthenticated self")
  case True
  then show ?thesis by (rule direct)
next
  case False
  then obtain e where e: "r1 = Inl e" "stale_auth e" "\<not> reauthenticated self"
    by blast
  obtain r2 self1 w2 where rs: "refresh_session env self w1 = (r2, self1, w2)"
    by (cases "refresh_session env self w1") auto
  show ?thesis
  proof (cases r2)
    case (Inl e')
    with e rs show ?thesis by (auto intro: rebuild_fails)
  next
    case (Inr u)
    with e rs show ?thesis by (auto intro: retry)
  qed
qed

subsection \<open>Order of events, first build, file reads\<close>

lemma filter_flag_raise_logs_connects:
  assumes "list_all (\<lambda>ev. is_log ev \<or> is_connect ev) evs"
  shows "filter is_flag_raise evs = []"
  using assms
proof (induction evs)
  case Nil
  then show ?case by simp
next
  case (Cons ev evs)
  then show ?case by (cases ev) auto
qed

lemma precedes_append:
  "precedes P Q (xs @ ys) \<longleftrightarrow>
     precedes P Q xs \<or> precedes P Q ys \<or> (list_ex P xs \<and> list_ex Q ys)"
  by (induction xs) auto

lemma precedes_needs_first: "\<not> list_ex P xs \<Longrightarrow> \<not> precedes P Q xs"
  by (induction xs) auto

lemma precedes_needs_second: "\<not> list_ex Q xs \<Longrightarrow> \<not> precedes P Q xs"
  by (induction xs) auto

lemma list_ex_logs_connects:
  assumes "list_all (\<lambda>ev. is_log ev \<or> is_connect ev) evs"
  shows "\<not> list_ex is_flag_raise evs \<and> \<not> list_ex is_token_request evs"
  using assms
proof (induction evs)
  case Nil
  then show ?case by simp
next
  case (Cons ev evs)
  then show ?case by (cases ev) auto
qed

lemma list_ex_logs:
  assumes "list_all is_log evs"
  shows "\<not> list_ex is_flag_raise evs \<and> \<not> list_ex is_token_request evs"
  using assms
proof (induction evs)
  case Nil
  then show ?case by simp
next
  case (Cons ev evs)
  then show ?case by (cases ev) auto
qed

lemma retry_order:
  assumes "list_all (\<lambda>ev. is_log ev \<or> is_connect ev) evs" and "list_all is_log logs"
    and "tr = EvExecute s q p r1 # EvGetAccessToken t # evs @
              EvSetReauthenticated True # EvExecute s' q p r # logs @
              [EvSetReauthenticated False, EvSetReauthenticated False]"
  shows "precedes is_token_request is_flag_raise tr \<and> \<not> precedes is_flag_raise is_token_request tr"
proof -
  let ?tail = "EvSetReauthenticated True # EvExecute s' q p r # logs @
              [EvSetReauthenticated False, EvSetReauthenticated False]"
  have a: "\<not> precedes is_flag_raise is_token_request evs"
    using list_ex_logs_connects [OF assms(1)] precedes_needs_first by blast
  have b: "\<not> precedes is_flag_raise is_token_request logs"
    using list_ex_logs [OF assms(2)] precedes_needs_first by blast
  have c: "\<not> precedes is_flag_raise is_token_request ?tail"
    using b list_ex_logs [OF assms(2)] by (simp add: precedes_append)
  have "\<not> precedes is_flag_raise is_token_request (evs @ ?tail)"
    using a c list_ex_logs_connects [OF assms(1)] by (simp only: precedes_append) simp
  then have "\<not> precedes is_flag_raise is_token_request tr"
    unfolding assms(3) by simp
  moreover have "precedes is_token_request is_flag_raise tr"
    unfolding assms(3) by simp
  ultimately show ?thesis by simp
qed

lemma initialize_session_trace:
  assumes "initialize_session env flag w = (Inr self, w')"
  shows "\<exists>token source gschema.
           trace w' = trace w @
             [EvGetAccessToken (Inr token), EvReadFile (PATH_TO_GRAPHQL_SCHEMA env) (Inr source),
              EvConnectSync (client self) (Inr (session self))]
         \<and> parse env source = Inr (document self)
         \<and> build_ast_schema env (document self) = Inr gschema
         \<and> client self =
             Client (HTTPXTransport (ROBOT_API_URL env) [(''authorization'', ''Bearer '' @ token)]) gschema
         \<and> schema self = DSLSchema gschema
         \<and> reauthenticated self = flag"
  using assms
  by (auto simp: initialize_session_def get_updated_auth_header_def call_get_access_token_def
                 call_read_file_def client_connect_sync_def Let_def emit_def
           split: prod.splits sum.splits)

lemma refresh_session_ok_trace:
  assumes "refresh_session env self w = (Inr u, self1, w1)"
  shows "\<exists>token gschema.
           new_events w w1 =
             [EvGetAccessToken (Inr token), EvConnectSync (client self1) (Inr (session self1))]
         \<and> build_ast_schema env (document self) = Inr gschema
         \<and> client self1 =
             Client (HTTPXTransport (ROBOT_API_URL env) [(''authorization'', ''Bearer '' @ token)]) gschema"
  using assms
  by (auto simp: refresh_session_def get_updated_auth_header_def call_get_access_token_def
                 client_connect_sync_def new_events_def Let_def emit_def
           split: prod.splits sum.splits)

lemma query_reads_no_file:
  assumes "query env self q p w = (r, self', w')"
  shows "filter is_read_file (new_events w w') = []"
proof -
  obtain r1 w1 where ex: "session_execute env (session self) q p w = (r1, w1)"
    by (cases "session_execute env (session self) q p w") auto
  from ex show ?thesis
  proof (cases rule: query_cases)
    case direct
    from query_direct_trace [OF ex direct assms] obtain logs where
      "new_events w w' = EvExecute (session self) q p r1 # logs @ [EvSetReauthenticated False]"
      "list_all is_log logs" by blast
    then show ?thesis
      using filter_logs [of logs] by simp
  next
    case (rebuild_fails e e' self1 w2)
    from query_rebuild_fails_trace [OF ex [unfolded rebuild_fails(1)] rebuild_fails(2-4) assms]
    obtain t evs where
      "new_events w w' =
         EvExecute (session self) q p (Inl e) # EvGetAccessToken t # evs @ [EvSetReauthenticated False]"
      "list_all (\<lambda>ev. is_log ev \<or> is_connect ev) evs" by blast
    then show ?thesis
      using filter_logs_connects [of evs] by simp
  next
    case (retry e u self1 w2)
    from query_retry_trace [OF ex [unfolded retry(1)] retry(2-4) assms]
    obtain t evs logs where
      "new_events w w' =
         EvExecute (session self) q p (Inl e) # EvGetAccessToken t # evs @
         EvSetReauthenticated True # EvExecute (session self1) q p r # logs @
         [EvSetReauthenticated False, EvSetReauthenticated False]"
      "list_all (\<lambda>ev. is_log ev \<or> is_connect ev) evs"
      "list_all is_log logs" by blast
    then show ?thesis
      using filter_logs_connects [of evs] filter_logs [of logs] by simp
  qed
qed

lemma refresh_session_counts:
  assumes "refresh_session env self w = (r, self1, w1)"
  shows "filter is_read_file (new_events w w1) = [] \<and> rebuilds (new_events w w1) = 1"
proof -
  from refresh_session_trace [OF assms] obtain t evs where
    *: "trace w1 = trace w @ EvGetAccessToken t # evs"
       "list_all (\<lambda>ev. is_log ev \<or> is_connect ev) evs" by blast
  from *(1) have "new_events w w1 = EvGetAccessToken t # evs"
    by (rule new_events_append)
  then show ?thesis
    using filter_logs_connects [OF *(2)] by (simp add: rebuilds_def)
qed

subsection \<open>The scripted world\<close>

lemmas scripted_defs =
  scripted_env_def start_def self0_def q0_def p0_def ok0_def client_with_def
  session_execute_def emit_def logger_error_def logger_critical_def call_get_access_token_def
  call_read_file_def client_connect_sync_def set_reauthenticated_def get_updated_auth_header_def
  refresh_session_def initialize_session_def init_def finally_reset_def new_events_def
  rebuilds_def attempts_def Let_def

text \<open>
  The object \<open>self0\<close> of the examples is the one \<^verbatim>\<open>__init__\<close> builds in the scripted
  world when the first token is \<open>t0\<close>; the flag of a new object is unset.
\<close>

lemma init_scripted:
  "fst (init scripted_env (start ([Inr ''t0''], rs))) = Inr self0"
  by (simp add: scripted_defs)

lemma init_flag_unset:
  assumes "init env w = (Inr self, w')"
  shows "\<not> reauthenticated self"
  using assms
  by (auto simp: init_def initialize_session_def Let_def split: prod.splits sum.splits)

lemma run_twice_stale:
  "query scripted_env self0 q0 p0 twice_stale =
     (Inl (TransportServerError ''Found'' (Some 302)),
      self0\<lparr>client := client_with ''t1'', session := SyncClientSession (client_with ''t1'')\<rparr>,
      \<lparr>external = ([Inr ''t2''], [Inr ok0]),
       trace =
         [EvExecute (SyncClientSession (client_with ''t0'')) q0 p0 (Inl (TransportProtocolError ''bad'')),
          EvGetAccessToken (Inr ''t1''),
          EvConnectSync (client_with ''t1'') (Inr (SyncClientSession (client_with ''t1''))),
          EvSetReauthenticated True,
          EvExecute (SyncClientSession (client_with ''t1'')) q0 p0
            (Inl (TransportServerError ''Found'' (Some 302))),
          EvLog Error ''Transport server error - Error in Energy Robotics server even after reauthentication'',
          EvSetReauthenticated False,
          EvSetReauthenticated False]\<rparr>)"
  by (simp add: twice_stale_def scripted_defs query.simps)

lemma run_timeout:
  "query scripted_env self0 q0 p0 timeout =
     (Inl (ReadTimeout ''slow''), self0,
      \<lparr>external = ([Inr ''t1''], [Inr ok0]),
       trace =
         [EvExecute (SyncClientSession (client_with ''t0'')) q0 p0 (Inl (ReadTimeout ''slow'')),
          EvLog Error ''Request to GraphQL API timed out: slow'',
          EvSetReauthenticated False]\<rparr>)"
  by (simp add: timeout_def scripted_defs query.simps)

lemma run_stale_then_denied:
  "query scripted_env self0 q0 p0 stale_then_denied =
     (Inl (OtherException ''denied''), self0,
      \<lparr>external = ([], [Inr ok0]),
       trace =
         [EvExecute (SyncClientSession (client_with ''t0'')) q0 p0 (Inl (TransportProtocolError ''bad'')),
          EvGetAccessToken (Inl (OtherException ''denied'')),
          EvLog Critical (''CRITICAL - Error getting access token: '' @ [CHR 0x0A] @ ''denied''),
          EvSetReauthenticated False]\<rparr>)"
  by (simp add: stale_then_denied_def scripted_defs query.simps)

lemma run_redirect_then_denied:
  "query scripted_env self0 q0 p0 redirect_then_denied =
     (Inl (OtherException ''denied''), self0,
      \<lparr>external = ([], [Inr ok0]),
       trace =
         [EvExecute (SyncClientSession (client_with ''t0'')) q0 p0
            (Inl (TransportServerError ''Found'' (Some 302))),
          EvGetAccessToken (Inl (OtherException ''denied'')),
          EvLog Critical (''CRITICAL - Error getting access token: '' @ [CHR 0x0A] @ ''denied''),
          EvSetReauthenticated False]\<rparr>)"
  by (simp add: redirect_then_denied_def scripted_defs query.simps)

lemma run_stale_then_ok:
  "query scripted_env self0 q0 p0 stale_then_ok =
     (Inr ok0,
      self0\<lparr>client := client_with ''t1'', session := SyncClientSession (client_with ''t1'')\<rparr>,
      \<lparr>external = ([], []),
       trace =
         [EvExecute (SyncClientSession (client_with ''t0'')) q0 p0 (Inl (TransportProtocolError ''bad'')),
          EvGetAccessToken (Inr ''t1''),
          EvConnectSync (client_with ''t1'') (Inr (SyncClientSession (client_with ''t1''))),
          EvSetReauthenticated True,
          EvExecute (SyncClientSession (client_with ''t1'')) q0 p0 (Inr ok0),
          EvSetReauthenticated False,
          EvSetReauthenticated False]\<rparr>)"
  by (simp add: stale_then_ok_def scripted_defs query.simps)

lemma run_all_ok:
  "query scripted_env self0 q0 p0 all_ok =
     (Inr ok0, self0,
      \<lparr>external = ([Inr ''t1''], []),
       trace = [EvExecute (SyncClientSession (client_with ''t0'')) q0 p0 (Inr ok0),
                EvSetReauthenticated False]\<rparr>)"
  by (simp add: all_ok_def scripted_defs query.simps)

lemma first_attempt_timeout:
  "session_execute scripted_env (session self0) q0 p0 timeout =
     (Inl (ReadTimeout ''slow''),
      \<lparr>external = ([Inr ''t1''], [Inr ok0]),
       trace = [EvExecute (SyncClientSession (client_with ''t0'')) q0 p0 (Inl (ReadTimeout ''slow''))]\<rparr>)"
  by (simp add: timeout_def scripted_defs)

lemma first_attempt_stale_then_denied:
  "session_execute scripted_env (session self0) q0 p0 stale_then_denied =
     (Inl (TransportProtocolError ''bad''),
      \<lparr>external = ([Inl (OtherException ''denied'')], [Inr ok0]),
       trace = [EvExecute (SyncClientSession (client_with ''t0'')) q0 p0
                  (Inl (TransportProtocolError ''bad''))]\<rparr>)"
  by (simp add: stale_then_denied_def scripted_defs)

lemma rebuild_stale_then_denied:
  "refresh_session scripted_env self0
      \<lparr>external = ([Inl (OtherException ''denied'')], [Inr ok0]),
       trace = [EvExecute (SyncClientSession (client_with ''t0'')) q0 p0
                  (Inl (TransportProtocolError ''bad''))]\<rparr> =
     (Inl (OtherException ''denied''), self0,
      \<lparr>external = ([], [Inr ok0]),
       trace =
         [EvExecute (SyncClientSession (client_with ''t0'')) q0 p0 (Inl (TransportProtocolError ''bad'')),
          EvGetAccessToken (Inl (OtherException ''denied'')),
          EvLog Critical (''CRITICAL - Error getting access token: '' @ [CHR 0x0A] @ ''denied'')]\<rparr>)"
  by (simp add: scripted_defs)

lemma first_attempt_twice_stale:
  "session_execute scripted_env (session self0) q0 p0 twice_stale =
     (Inl (TransportProtocolError ''bad''),
      \<lparr>external = ([Inr ''t1'', Inr ''t2''], [Inl (TransportServerError ''Found'' (Some 302)), Inr ok0]),
       trace = [EvExecute (SyncClientSession (client_with ''t0'')) q0 p0
                  (Inl (TransportProtocolError ''bad''))]\<rparr>)"
  by (simp add: twice_stale_def scripted_defs)

lemma rebuild_twice_stale:
  "refresh_session scripted_env self0
      \<lparr>external = ([Inr ''t1'', Inr ''t2''], [Inl (TransportServerError ''Found'' (Some 302)), Inr ok0]),
       trace = [EvExecute (SyncClientSession (client_with ''t0'')) q0 p0
                  (Inl (TransportProtocolError ''bad''))]\<rparr> =
     (Inr (),
      self0\<lparr>client := client_with ''t1'', session := SyncClientSession (client_with ''t1'')\<rparr>,
      \<lparr>external = ([Inr ''t2''], [Inl (TransportServerError ''Found'' (Some 302)), Inr ok0]),
       trace =
         [EvExecute (SyncClientSession (client_with ''t0'')) q0 p0 (Inl (TransportProtocolError ''bad'')),
          EvGetAccessToken (Inr ''t1''),
          EvConnectSync (client_with ''t1'') (Inr (SyncClientSession (client_with ''t1'')))]\<rparr>)"
  by (simp add: scripted_defs)

lemma first_attempt_server_error_500:
  "session_execute scripted_env (session self0) q0 p0 server_error_500 =
     (Inl (TransportServerError ''Internal Server Error'' (Some 500)),
      \<lparr>external = ([Inr ''t1''], [Inr ok0]),
       trace = [EvExecute (SyncClientSession (client_with ''t0'')) q0 p0
                  (Inl (TransportServerError ''Internal Server Error'' (Some 500)))]\<rparr>)"
  by (simp add: server_error_500_def scripted_defs)

lemma run_server_error_500:
  "query scripted_env self0 q0 p0 server_error_500 =
     (Inl (TransportServerError ''Internal Server Error'' (Some 500)), self0,
      \<lparr>external = ([Inr ''t1''], [Inr ok0]),
       trace =
         [EvExecute (SyncClientSession (client_with ''t0'')) q0 p0
            (Inl (TransportServerError ''Internal Server Error'' (Some 500))),
          EvLog Error ''Error in Energy Robotics server: Internal Server Error'',
          EvSetReauthenticated False]\<rparr>)"
  by (simp add: server_error_500_def scripted_defs query.simps)

lemma first_attempt_stale_then_ok:
  "session_execute scripted_env (session self0) q0 p0 stale_then_ok =
     (Inl (TransportProtocolError ''bad''),
      \<lparr>external = ([Inr ''t1''], [Inr ok0]),
       trace = [EvExecute (SyncClientSession (client_with ''t0'')) q0 p0
                  (Inl (TransportProtocolError ''bad''))]\<rparr>)"
  by (simp add: stale_then_ok_def scripted_defs)

lemma rebuild_stale_then_ok:
  "refresh_session scripted_env self0
      \<lparr>external = ([Inr ''t1''], [Inr ok0]),
       trace = [EvExecute (SyncClientSession (client_with ''t0'')) q0 p0
                  (Inl (TransportProtocolError ''bad''))]\<rparr> =
     (Inr (),
      self0\<lparr>client := client_with ''t1'', session := SyncClientSession (client_with ''t1'')\<rparr>,
      \<lparr>external = ([], [Inr ok0]),
       trace =
         [EvExecute (SyncClientSession (client_with ''t0'')) q0 p0 (Inl (TransportProtocolError ''bad'')),
          EvGetAccessToken (Inr ''t1''),
          EvConnectSync (client_with ''t1'') (Inr (SyncClientSession (client_with ''t1'')))]\<rparr>)"
  by (simp add: scripted_defs)

lemma run_init:
  "init scripted_env (start ([Inr ''t0''], [])) =
     (Inr self0,
      \<lparr>external = ([], []),
       trace =
         [EvSetReauthenticated False,
          EvGetAccessToken (Inr ''t0''),
          EvReadFile ''schema.graphql'' (Inr ''type Query''),
          EvConnectSync (client_with ''t0'') (Inr (SyncClientSession (client_with ''t0'')))]\<rparr>)"
  by (simp add: scripted_defs)

lemma rebuild_fresh:
  "refresh_session scripted_env self0 (start ([Inr ''t1''], [])) =
     (Inr (), self0\<lparr>client := client_with ''t1'', session := SyncClientSession (client_with ''t1'')\<rparr>,
      \<lparr>external = ([], []),
       trace = [EvGetAccessToken (Inr ''t1''),
                EvConnectSync (client_with ''t1'') (Inr (SyncClientSession (client_with ''t1'')))]\<rparr>)"
  by (simp add: scripted_defs)

section \<open>The claims\<close>

subsection \<open>C2: the flag after a call\<close>

text \<open>
  Claim C2. For every call of \<^verbatim>\<open>query\<close>, whatever the state of the object and of
  the outside world before it, and whether the call returns a response or
  raises, \<^verbatim>\<open>_reauthenticated\<close> is \<^verbatim>\<open>False\<close> in the object the caller gets back: the
  \<^verbatim>\<open>finally\<close> clause is the last step of every path.
\<close>

theorem query_resets_flag:
  "reauthenticated (fst (snd (query env self q p w))) = False"
  by (subst query.simps) (simp add: finally_reset_def set_reauthenticated_def split: prod.splits)

subsection \<open>C8: a failing token request\<close>

text \<open>
  Claim C8. When \<^verbatim>\<open>get_access_token\<close> raises \<open>e\<close>, building the auth header, the
  first build (\<^verbatim>\<open>_initialize_session\<close>) and a rebuild (\<^verbatim>\<open>_refresh_session\<close>) all
  raise the same \<open>e\<close>; the only things that have happened are the one token
  request and one log record at critical severity, so the request is not
  repeated, and the object is as it was.
\<close>

theorem token_failure_is_logged_and_raised:
  assumes "get_access_token env (external w) = (Inl e, x)"
    and "w' = w\<lparr>external := x,
                 trace := trace w @
                   [EvGetAccessToken (Inl e),
                    EvLog Critical (''CRITICAL - Error getting access token: '' @ [CHR 0x0A] @ str_exc e)]\<rparr>"
  shows "get_updated_auth_header env w = (Inl e, w')
       \<and> refresh_session env self w = (Inl e, self, w')
       \<and> initialize_session env flag w = (Inl e, w')
       \<and> rebuilds (new_events w w') = 1"
  using assms
  by (simp add: get_updated_auth_header_def call_get_access_token_def refresh_session_def
                initialize_session_def logger_critical_def emit_def new_events_def rebuilds_def)

theorem token_failure_is_logged_and_raised_witness:
  "get_access_token scripted_env (external (start ([Inl (OtherException ''denied'')], []))) =
     (Inl (OtherException ''denied''), ([], []))
   \<and> refresh_session scripted_env self0 (start ([Inl (OtherException ''denied'')], [])) =
     (Inl (OtherException ''denied''), self0,
      \<lparr>external = ([], []),
       trace = [EvGetAccessToken (Inl (OtherException ''denied'')),
                EvLog Critical (''CRITICAL - Error getting access token: '' @ [CHR 0x0A] @ ''denied'')]\<rparr>)
   \<and> initialize_session scripted_env False (start ([Inl (OtherException ''denied'')], [])) =
     (Inl (OtherException ''denied''),
      \<lparr>external = ([], []),
       trace = [EvGetAccessToken (Inl (OtherException ''denied'')),
                EvLog Critical (''CRITICAL - Error getting access token: '' @ [CHR 0x0A] @ ''denied'')]\<rparr>)"
proof -
  have h: "get_access_token scripted_env (external (start ([Inl (OtherException ''denied'')], []))) =
     (Inl (OtherException ''denied''), ([], []))"
    by (simp add: scripted_env_def start_def)
  show ?thesis
    using h token_failure_is_logged_and_raised [OF h refl, of self0 False]
    by (simp add: start_def)
qed

subsection \<open>C10: what a rebuild leaves alone\<close>

text \<open>
  Claim C10. \<^verbatim>\<open>_refresh_session\<close>, whether it returns or raises, changes no attribute
  of the object other than \<^verbatim>\<open>client\<close> and \<^verbatim>\<open>session\<close>: the parsed document
  \<^verbatim>\<open>self.document\<close> and the DSL wrapper \<^verbatim>\<open>self.schema\<close> set by
  \<^verbatim>\<open>_initialize_session\<close> (and the flag) are the same after it.
\<close>

theorem refresh_session_frame:
  assumes "refresh_session env self w = (r, self1, w1)"
  shows "document self1 = document self \<and> schema self1 = schema self
       \<and> reauthenticated self1 = reauthenticated self
       \<and> self1 = self\<lparr>client := client self1, session := session self1\<rparr>"
  using assms
  by (auto simp: refresh_session_def Let_def split: prod.splits sum.splits)

theorem refresh_session_frame_witness:
  "refresh_session scripted_env self0 (start ([Inr ''t1''], [])) =
     (Inr (), self0\<lparr>client := client_with ''t1'', session := SyncClientSession (client_with ''t1'')\<rparr>,
      \<lparr>external = ([], []),
       trace = [EvGetAccessToken (Inr ''t1''),
                EvConnectSync (client_with ''t1'') (Inr (SyncClientSession (client_with ''t1'')))]\<rparr>)
   \<and> document (self0\<lparr>client := client_with ''t1'', session := SyncClientSession (client_with ''t1'')\<rparr>)
       = document self0
   \<and> schema (self0\<lparr>client := client_with ''t1'', session := SyncClientSession (client_with ''t1'')\<rparr>)
       = schema self0
   \<and> client_with ''t1'' \<noteq> client self0"
proof -
  have h: "refresh_session scripted_env self0 (start ([Inr ''t1''], [])) =
     (Inr (), self0\<lparr>client := client_with ''t1'', session := SyncClientSession (client_with ''t1'')\<rparr>,
      \<lparr>external = ([], []),
       trace = [EvGetAccessToken (Inr ''t1''),
                EvConnectSync (client_with ''t1'') (Inr (SyncClientSession (client_with ''t1'')))]\<rparr>)"
    by (simp add: scripted_defs)
  have "client_with ''t1'' \<noteq> client self0"
    by (simp add: self0_def client_with_def)
  with h refresh_session_frame [OF h] show ?thesis
    by simp
qed

subsection \<open>C1: at most one reauthentication\<close>

text \<open>
  Claim C1. A call of \<^verbatim>\<open>query\<close>, in any state, rebuilds the session at most once
  (at most one token request and at most one \<^verbatim>\<open>connect_sync\<close>) and executes the
  query at most twice. In particular, when a second attempt has been made and
  has failed with \<open>e2\<close> (a protocol error, a server error of code 302 or any
  other exception), the call raises \<open>e2\<close> to its caller; there is no third
  attempt.
\<close>

theorem query_at_most_one_reauthentication:
  assumes "query env self q p w = (r, self', w')"
  shows "rebuilds (new_events w w') \<le> 1
       \<and> length (filter is_connect (new_events w w')) \<le> 1
       \<and> length (attempts (new_events w w')) \<le> 2
       \<and> (\<forall>s1 q1 p1 r1 s2 q2 p2 e2.
            attempts (new_events w w') = [EvExecute s1 q1 p1 r1, EvExecute s2 q2 p2 (Inl e2)]
            \<longrightarrow> r = Inl e2)"
proof -
  obtain r1 w1 where ex: "session_execute env (session self) q p w = (r1, w1)"
    by (cases "session_execute env (session self) q p w") auto
  from ex show ?thesis
  proof (cases rule: query_cases)
    case direct
    from query_direct_trace [OF ex direct assms] obtain logs where
      "new_events w w' = EvExecute (session self) q p r1 # logs @ [EvSetReauthenticated False]"
      "list_all is_log logs" by blast
    then show ?thesis
      using filter_logs [of logs] by (simp add: rebuilds_def attempts_def)
  next
    case (rebuild_fails e e' self1 w2)
    from query_rebuild_fails_trace [OF ex [unfolded rebuild_fails(1)] rebuild_fails(2-4) assms]
    obtain t evs where
      "new_events w w' =
         EvExecute (session self) q p (Inl e) # EvGetAccessToken t # evs @ [EvSetReauthenticated False]"
      "list_all (\<lambda>ev. is_log ev \<or> is_connect ev) evs" "length evs \<le> 1" by blast
    then show ?thesis
      using filter_logs_connects [of evs] le_trans [OF length_filter_le, of evs 1 is_connect]
      by (simp add: rebuilds_def attempts_def)
  next
    case (retry e u self1 w2)
    from query_retry_trace [OF ex [unfolded retry(1)] retry(2-4) assms]
    obtain t evs logs where
      "new_events w w' =
         EvExecute (session self) q p (Inl e) # EvGetAccessToken t # evs @
         EvSetReauthenticated True # EvExecute (session self1) q p r # logs @
         [EvSetReauthenticated False, EvSetReauthenticated False]"
      "list_all (\<lambda>ev. is_log ev \<or> is_connect ev) evs" "length evs \<le> 1"
      "list_all is_log logs" by blast
    then show ?thesis
      using filter_logs_connects [of evs] filter_logs [of logs]
        le_trans [OF length_filter_le, of evs 1 is_connect]
      by (simp add: rebuilds_def attempts_def)
  qed
qed

theorem query_at_most_one_reauthentication_witness:
  "rebuilds (new_events twice_stale (snd (snd (query scripted_env self0 q0 p0 twice_stale)))) = 1
 \<and> attempts (new_events twice_stale (snd (snd (query scripted_env self0 q0 p0 twice_stale)))) =
     [EvExecute (SyncClientSession (client_with ''t0'')) q0 p0 (Inl (TransportProtocolError ''bad'')),
      EvExecute (SyncClientSession (client_with ''t1'')) q0 p0 (Inl (TransportServerError ''Found'' (Some 302)))]
 \<and> fst (query scripted_env self0 q0 p0 twice_stale) = Inl (TransportServerError ''Found'' (Some 302))
 \<and> external (snd (snd (query scripted_env self0 q0 p0 twice_stale))) = ([Inr ''t2''], [Inr ok0])"
  using query_at_most_one_reauthentication [OF run_twice_stale]
  by (simp add: run_twice_stale) (simp add: twice_stale_def start_def new_events_def rebuilds_def attempts_def)

subsection \<open>C4: failures that are not answered by a rebuild\<close>

text \<open>
  Claim C4. In a call of \<^verbatim>\<open>query\<close> (a top-level call or the retry, whatever the
  flag) whose attempt raises \<open>e\<close>, where \<open>e\<close> is a \<^verbatim>\<open>GraphQLError\<close>, a
  \<^verbatim>\<open>TransportQueryError\<close>, a \<^verbatim>\<open>TransportServerError\<close> whose code is not 302, a
  \<^verbatim>\<open>TransportClosed\<close>, a \<^verbatim>\<open>TransportAlreadyConnected\<close>, a \<^verbatim>\<open>ReadTimeout\<close>, a
  \<^verbatim>\<open>ConnectTimeout\<close> or any other \<^verbatim>\<open>Exception\<close> (these are the exceptions with
  \<open>\<not> stale_auth e\<close>, see \<open>not_stale_auth_iff\<close>), the call raises the same \<open>e\<close>;
  all it has done is the attempt, one log record at error severity and the
  reset of the flag: no token is asked for and the session is not rebuilt.
\<close>

theorem unrecoverable_failure_is_logged_and_raised:
  assumes "session_execute env (session self) q p w = (Inl e, w1)"
    and "\<not> stale_auth e"
  shows "\<exists>msg w'. query env self q p w = (Inl e, self\<lparr>reauthenticated := False\<rparr>, w')
           \<and> external w' = external w1
           \<and> new_events w w' =
               [EvExecute (session self) q p (Inl e), EvLog Error msg, EvSetReauthenticated False]
           \<and> rebuilds (new_events w w') = 0"
proof -
  from assms obtain msg where
    run: "query env self q p w = finally_reset (Inl e, self, logger_error msg w1)"
    using query_fail_direct by blast
  let ?w' = "emit (EvSetReauthenticated False) (logger_error msg w1)"
  have "trace ?w' =
          trace w @ [EvExecute (session self) q p (Inl e), EvLog Error msg, EvSetReauthenticated False]"
    using session_execute_trace [OF assms(1)] by simp
  then have ev: "new_events w ?w' =
          [EvExecute (session self) q p (Inl e), EvLog Error msg, EvSetReauthenticated False]"
    by (rule new_events_append)
  have "external ?w' = external w1"
    by (simp add: emit_def logger_error_def)
  with run ev show ?thesis
    by (simp add: finally_reset_eq rebuilds_def)
qed

theorem unrecoverable_failure_is_logged_and_raised_witness:
  "session_execute scripted_env (session self0) q0 p0 timeout =
     (Inl (ReadTimeout ''slow''),
      \<lparr>external = ([Inr ''t1''], [Inr ok0]),
       trace = [EvExecute (SyncClientSession (client_with ''t0'')) q0 p0 (Inl (ReadTimeout ''slow''))]\<rparr>)
   \<and> \<not> stale_auth (ReadTimeout ''slow'')
   \<and> fst (query scripted_env self0 q0 p0 timeout) = Inl (ReadTimeout ''slow'')
   \<and> fst (snd (query scripted_env self0 q0 p0 timeout)) = self0
   \<and> new_events timeout (snd (snd (query scripted_env self0 q0 p0 timeout))) =
       [EvExecute (SyncClientSession (client_with ''t0'')) q0 p0 (Inl (ReadTimeout ''slow'')),
        EvLog Error ''Request to GraphQL API timed out: slow'',
        EvSetReauthenticated False]
   \<and> rebuilds (new_events timeout (snd (snd (query scripted_env self0 q0 p0 timeout)))) = 0"
proof -
  have ns: "\<not> stale_auth (ReadTimeout ''slow'')"
    by simp
  from unrecoverable_failure_is_logged_and_raised [OF first_attempt_timeout ns]
  have "rebuilds (new_events timeout (snd (snd (query scripted_env self0 q0 p0 timeout)))) = 0"
    by auto
  then show ?thesis
    using first_attempt_timeout
    by (simp add: run_timeout) (simp add: timeout_def start_def new_events_def self0_def)
qed

subsection \<open>C6: the response of a successful call\<close>

text \<open>
  Claim C6. A call of \<^verbatim>\<open>query\<close> whose first attempt returns a mapping returns
  that mapping. When the first attempt raised a protocol error and a second
  attempt returned a mapping, the call returns the mapping of the second
  attempt. And whenever a call returns a mapping, it is the mapping that the
  last attempt returned, executed on the session the object holds afterwards.
\<close>

theorem successful_response_is_returned_unchanged:
  assumes "query env self q p w = (r, self', w')"
  shows "(\<forall>response w1. session_execute env (session self) q p w = (Inr response, w1)
            \<longrightarrow> r = Inr response)
       \<and> (\<forall>s1 q1 p1 m s2 q2 p2 response.
            attempts (new_events w w') =
              [EvExecute s1 q1 p1 (Inl (TransportProtocolError m)), EvExecute s2 q2 p2 (Inr response)]
            \<longrightarrow> r = Inr response)
       \<and> (\<forall>response. r = Inr response
            \<longrightarrow> attempts (new_events w w') \<noteq> []
              \<and> last (attempts (new_events w w')) = EvExecute (session self') q p (Inr response))"
proof -
  obtain r1 w1 where ex: "session_execute env (session self) q p w = (r1, w1)"
    by (cases "session_execute env (session self) q p w") auto
  from ex show ?thesis
  proof (cases rule: query_cases)
    case direct
    from query_direct_trace [OF ex direct assms] obtain logs where
      "new_events w w' = EvExecute (session self) q p r1 # logs @ [EvSetReauthenticated False]"
      "list_all is_log logs" "r = r1" "self' = self\<lparr>reauthenticated := False\<rparr>" by blast
    then show ?thesis
      using ex filter_logs [of logs] by (simp add: attempts_def)
  next
    case (rebuild_fails e e' self1 w2)
    from query_rebuild_fails_trace [OF ex [unfolded rebuild_fails(1)] rebuild_fails(2-4) assms]
    obtain t evs where
      "new_events w w' =
         EvExecute (session self) q p (Inl e) # EvGetAccessToken t # evs @ [EvSetReauthenticated False]"
      "list_all (\<lambda>ev. is_log ev \<or> is_connect ev) evs" "r = Inl e'" by blast
    then show ?thesis
      using ex rebuild_fails(1) filter_logs_connects [of evs] by (simp add: attempts_def)
  next
    case (retry e u self1 w2)
    from query_retry_trace [OF ex [unfolded retry(1)] retry(2-4) assms]
    obtain t evs logs where
      "new_events w w' =
         EvExecute (session self) q p (Inl e) # EvGetAccessToken t # evs @
         EvSetReauthenticated True # EvExecute (session self1) q p r # logs @
         [EvSetReauthenticated False, EvSetReauthenticated False]"
      "list_all (\<lambda>ev. is_log ev \<or> is_connect ev) evs"
      "list_all is_log logs" "self' = self1\<lparr>reauthenticated := False\<rparr>" by blast
    then show ?thesis
      using ex retry(1) filter_logs_connects [of evs] filter_logs [of logs]
      by (simp add: attempts_def)
  qed
qed

theorem successful_response_is_returned_unchanged_witness:
  "fst (session_execute scripted_env (session self0) q0 p0 all_ok) = Inr ok0
   \<and> fst (query scripted_env self0 q0 p0 all_ok) = Inr ok0
   \<and> attempts (new_events stale_then_ok (snd (snd (query scripted_env self0 q0 p0 stale_then_ok)))) =
       [EvExecute (SyncClientSession (client_with ''t0'')) q0 p0 (Inl (TransportProtocolError ''bad'')),
        EvExecute (SyncClientSession (client_with ''t1'')) q0 p0 (Inr ok0)]
   \<and> fst (query scripted_env self0 q0 p0 stale_then_ok) = Inr ok0"
proof -
  have a: "attempts (new_events stale_then_ok (snd (snd (query scripted_env self0 q0 p0 stale_then_ok)))) =
       [EvExecute (SyncClientSession (client_with ''t0'')) q0 p0 (Inl (TransportProtocolError ''bad'')),
        EvExecute (SyncClientSession (client_with ''t1'')) q0 p0 (Inr ok0)]"
    by (simp add: run_stale_then_ok) (simp add: stale_then_ok_def start_def new_events_def attempts_def)
  have b: "fst (session_execute scripted_env (session self0) q0 p0 all_ok) = Inr ok0"
    by (simp add: all_ok_def scripted_defs)
  from successful_response_is_returned_unchanged [OF run_stale_then_ok] a
  have c: "Inr ok0 = (Inr ok0 :: exc + pydict)"
    by simp
  from successful_response_is_returned_unchanged [OF run_all_ok] b
  have d: "fst (query scripted_env self0 q0 p0 all_ok) = Inr ok0"
    by (simp add: run_all_ok)
  from a b c d show ?thesis
    by (simp add: run_stale_then_ok)
qed

subsection \<open>C9: a rebuild that raises\<close>

text \<open>
  Claim C9. When the first attempt of a call with the flag unset raises a
  protocol error or a server error of code 302 and \<^verbatim>\<open>_refresh_session\<close> then
  raises \<open>e'\<close>, the call raises \<open>e'\<close> and not the error of the attempt; the query
  has been executed once only, the flag has never been set and it is unset
  after the call.
\<close>

theorem rebuild_failure_propagates:
  assumes "session_execute env (session self) q p w = (Inl e, w1)"
    and "stale_auth e" and "\<not> reauthenticated self"
    and "refresh_session env self w1 = (Inl e', self1, w2)"
    and "query env self q p w = (r, self', w')"
  shows "r = Inl e'
       \<and> attempts (new_events w w') = [EvExecute (session self) q p (Inl e)]
       \<and> filter is_flag_raise (new_events w w') = []
       \<and> reauthenticated self' = False"
proof -
  from query_rebuild_fails_trace [OF assms] obtain t evs where
    *: "new_events w w' =
         EvExecute (session self) q p (Inl e) # EvGetAccessToken t # evs @ [EvSetReauthenticated False]"
      "list_all (\<lambda>ev. is_log ev \<or> is_connect ev) evs" "r = Inl e'"
      "self' = self1\<lparr>reauthenticated := False\<rparr>" by blast
  have "filter is_flag_raise evs = []"
    using *(2)
  proof (induction evs)
    case Nil
    then show ?case by simp
  next
    case (Cons ev evs)
    then show ?case by (cases ev) auto
  qed
  with * show ?thesis
    using filter_logs_connects [of evs] by (simp add: attempts_def)
qed

theorem rebuild_failure_propagates_witness:
  "session_execute scripted_env (session self0) q0 p0 stale_then_denied =
     (Inl (TransportProtocolError ''bad''),
      \<lparr>external = ([Inl (OtherException ''denied'')], [Inr ok0]),
       trace = [EvExecute (SyncClientSession (client_with ''t0'')) q0 p0
                  (Inl (TransportProtocolError ''bad''))]\<rparr>)
   \<and> stale_auth (TransportProtocolError ''bad'')
   \<and> \<not> reauthenticated self0
   \<and> fst (refresh_session scripted_env self0
        \<lparr>external = ([Inl (OtherException ''denied'')], [Inr ok0]),
         trace = [EvExecute (SyncClientSession (client_with ''t0'')) q0 p0
                    (Inl (TransportProtocolError ''bad''))]\<rparr>) = Inl (OtherException ''denied'')
   \<and> fst (query scripted_env self0 q0 p0 stale_then_denied) = Inl (OtherException ''denied'')
   \<and> attempts (new_events stale_then_denied (snd (snd (query scripted_env self0 q0 p0 stale_then_denied)))) =
       [EvExecute (session self0) q0 p0 (Inl (TransportProtocolError ''bad''))]
   \<and> reauthenticated (fst (snd (query scripted_env self0 q0 p0 stale_then_denied))) = False"
proof -
  have st: "stale_auth (TransportProtocolError ''bad'')"
    by simp
  have fl: "\<not> reauthenticated self0"
    by (simp add: self0_def)
  show ?thesis
    using rebuild_failure_propagates
            [OF first_attempt_stale_then_denied st fl rebuild_stale_then_denied run_stale_then_denied]
          first_attempt_stale_then_denied fl
    by (simp add: run_stale_then_denied rebuild_stale_then_denied)
qed

subsection \<open>C3: one rebuild and one retry after a stale-authentication failure\<close>

text \<open>
  The sentence of C3 as it stands says that after such a first failure the
  execution is always retried once. It is not when the rebuild itself raises:
  in \<open>redirect_then_denied\<close> the first attempt fails with a server error of code
  302, \<^verbatim>\<open>get_access_token\<close> raises, and the call ends with that exception after
  its single attempt.
\<close>

theorem stale_failure_without_retry_counterexample:
  "fst (session_execute scripted_env (session self0) q0 p0 redirect_then_denied) =
     Inl (TransportServerError ''Found'' (Some 302))
   \<and> reauthenticated self0 = False
   \<and> length (attempts (new_events redirect_then_denied
                (snd (snd (query scripted_env self0 q0 p0 redirect_then_denied))))) = 1
   \<and> fst (query scripted_env self0 q0 p0 redirect_then_denied) = Inl (OtherException ''denied'')"
  by (simp add: run_redirect_then_denied)
     (simp add: redirect_then_denied_def scripted_defs)

text \<open>
  Claim C3, amended. For every call of \<^verbatim>\<open>query\<close> with the flag unset whose first
  attempt raises a protocol error or a server error of code 302, exactly one
  session rebuild is started; if that rebuild returns, the query is executed
  exactly once more, on the new session and with the same \<open>query\<close> and
  \<open>query_parameters\<close>, and the outcome of the call is the outcome of that second
  attempt. A server error with any other code never starts a rebuild.
\<close>

theorem stale_failure_rebuilds_and_retries_once:
  assumes "query env self q p w = (r, self', w')"
    and "session_execute env (session self) q p w = (Inl e, w1)"
  shows "(stale_auth e \<and> \<not> reauthenticated self \<longrightarrow> rebuilds (new_events w w') = 1)
       \<and> (\<forall>u self1 w2.
            stale_auth e \<and> \<not> reauthenticated self \<and> refresh_session env self w1 = (Inr u, self1, w2)
            \<longrightarrow> attempts (new_events w w') =
                  [EvExecute (session self) q p (Inl e), EvExecute (session self1) q p r])
       \<and> (\<forall>m code. e = TransportServerError m code \<and> code \<noteq> Some 302
            \<longrightarrow> rebuilds (new_events w w') = 0)"
proof -
  from assms(2) show ?thesis
  proof (cases rule: query_cases)
    case direct
    from query_direct_trace [OF assms(2) direct assms(1)] obtain logs where
      "new_events w w' = EvExecute (session self) q p (Inl e) # logs @ [EvSetReauthenticated False]"
      "list_all is_log logs" by blast
    then show ?thesis
      using direct filter_logs [of logs] by (auto simp add: rebuilds_def)
  next
    case (rebuild_fails e0 e' self1 w2)
    then have e0: "e0 = e" by simp
    from query_rebuild_fails_trace [OF assms(2) rebuild_fails(2-4) [unfolded e0] assms(1)]
    obtain t evs where
      "new_events w w' =
         EvExecute (session self) q p (Inl e) # EvGetAccessToken t # evs @ [EvSetReauthenticated False]"
      "list_all (\<lambda>ev. is_log ev \<or> is_connect ev) evs" by blast
    then show ?thesis
      using rebuild_fails(2-4) [unfolded e0] filter_logs_connects [of evs]
      by (auto simp add: rebuilds_def)
  next
    case (retry e0 u self1 w2)
    then have e0: "e0 = e" by simp
    from query_retry_trace [OF assms(2) retry(2-4) [unfolded e0] assms(1)]
    obtain t evs logs where
      "new_events w w' =
         EvExecute (session self) q p (Inl e) # EvGetAccessToken t # evs @
         EvSetReauthenticated True # EvExecute (session self1) q p r # logs @
         [EvSetReauthenticated False, EvSetReauthenticated False]"
      "list_all (\<lambda>ev. is_log ev \<or> is_connect ev) evs"
      "list_all is_log logs" by blast
    then show ?thesis
      using retry(2-4) [unfolded e0] filter_logs_connects [of evs] filter_logs [of logs]
      by (auto simp add: rebuilds_def attempts_def)
  qed
qed

theorem stale_failure_rebuilds_and_retries_once_witness:
  "stale_auth (TransportProtocolError ''bad'') \<and> \<not> reauthenticated self0
   \<and> fst (session_execute scripted_env (session self0) q0 p0 twice_stale) =
       Inl (TransportProtocolError ''bad'')
   \<and> rebuilds (new_events twice_stale (snd (snd (query scripted_env self0 q0 p0 twice_stale)))) = 1
   \<and> attempts (new_events twice_stale (snd (snd (query scripted_env self0 q0 p0 twice_stale)))) =
       [EvExecute (SyncClientSession (client_with ''t0'')) q0 p0 (Inl (TransportProtocolError ''bad'')),
        EvExecute (SyncClientSession (client_with ''t1'')) q0 p0
          (Inl (TransportServerError ''Found'' (Some 302)))]
   \<and> fst (session_execute scripted_env (session self0) q0 p0 server_error_500) =
       Inl (TransportServerError ''Internal Server Error'' (Some 500))
   \<and> Some (500 :: int) \<noteq> Some 302
   \<and> rebuilds (new_events server_error_500
        (snd (snd (query scripted_env self0 q0 p0 server_error_500)))) = 0"
proof -
  have fl: "\<not> reauthenticated self0"
    by (simp add: self0_def)
  have ss: "session self0 = SyncClientSession (client_with ''t0'')"
    by (simp add: self0_def)
  note a = stale_failure_rebuilds_and_retries_once [OF run_twice_stale first_attempt_twice_stale]
  note b = stale_failure_rebuilds_and_retries_once [OF run_server_error_500 first_attempt_server_error_500]
  from a fl rebuild_twice_stale
  have 1: "rebuilds (new_events twice_stale (snd (snd (query scripted_env self0 q0 p0 twice_stale)))) = 1"
    and 2: "attempts (new_events twice_stale (snd (snd (query scripted_env self0 q0 p0 twice_stale)))) =
       [EvExecute (SyncClientSession (client_with ''t0'')) q0 p0 (Inl (TransportProtocolError ''bad'')),
        EvExecute (SyncClientSession (client_with ''t1'')) q0 p0
          (Inl (TransportServerError ''Found'' (Some 302)))]"
    by (simp_all add: run_twice_stale ss)
  from b
  have 3: "rebuilds (new_events server_error_500
        (snd (snd (query scripted_env self0 q0 p0 server_error_500)))) = 0"
    by (simp add: run_server_error_500)
  from 1 2 3 fl show ?thesis
    by (simp add: first_attempt_twice_stale first_attempt_server_error_500)
qed

subsection \<open>C5: the order of the recovery steps\<close>

text \<open>
  The sentence of C5 as it stands puts the assignment of the flag before the
  rebuild. The source calls \<^verbatim>\<open>_refresh_session()\<close> first and assigns
  \<^verbatim>\<open>self._reauthenticated = True\<close> after it has returned: in \<open>stale_then_ok\<close>
  no assignment of \<^verbatim>\<open>True\<close> comes before the token request or before
  \<^verbatim>\<open>connect_sync\<close>.
\<close>

theorem flag_before_rebuild_counterexample:
  "fst (session_execute scripted_env (session self0) q0 p0 stale_then_ok) =
     Inl (TransportProtocolError ''bad'')
   \<and> reauthenticated self0 = False
   \<and> new_events stale_then_ok (snd (snd (query scripted_env self0 q0 p0 stale_then_ok))) =
         [EvExecute (SyncClientSession (client_with ''t0'')) q0 p0 (Inl (TransportProtocolError ''bad'')),
          EvGetAccessToken (Inr ''t1''),
          EvConnectSync (client_with ''t1'') (Inr (SyncClientSession (client_with ''t1''))),
          EvSetReauthenticated True,
          EvExecute (SyncClientSession (client_with ''t1'')) q0 p0 (Inr ok0),
          EvSetReauthenticated False,
          EvSetReauthenticated False]
   \<and> precedes is_flag_raise is_token_request
        (new_events stale_then_ok (snd (snd (query scripted_env self0 q0 p0 stale_then_ok)))) = False
   \<and> precedes is_flag_raise is_connect
        (new_events stale_then_ok (snd (snd (query scripted_env self0 q0 p0 stale_then_ok)))) = False"
  by (simp add: run_stale_then_ok)
     (simp add: stale_then_ok_def scripted_defs)

text \<open>
  Claim C5, amended. When the first attempt raises a protocol error and the flag
  is unset, \<^verbatim>\<open>query\<close> first rebuilds the session (one token request, no
  assignment to the flag during the rebuild), then, the rebuild having returned,
  sets the flag to \<^verbatim>\<open>True\<close>, then makes the single retry; the two \<^verbatim>\<open>finally\<close>
  clauses unset the flag last. When the rebuild raises, the flag is never set.
\<close>

theorem rebuild_then_flag_then_retry:
  assumes "query env self q p w = (r, self', w')"
    and "session_execute env (session self) q p w = (Inl (TransportProtocolError m), w1)"
    and "\<not> reauthenticated self"
  shows "(\<forall>u self1 w2. refresh_session env self w1 = (Inr u, self1, w2) \<longrightarrow>
            (\<exists>logs. new_events w w' =
                EvExecute (session self) q p (Inl (TransportProtocolError m)) # new_events w1 w2 @
                EvSetReauthenticated True # EvExecute (session self1) q p r # logs @
                [EvSetReauthenticated False, EvSetReauthenticated False]
              \<and> list_all is_log logs)
          \<and> rebuilds (new_events w1 w2) = 1
          \<and> filter is_flag_set (new_events w1 w2) = []
          \<and> precedes is_token_request is_flag_raise (new_events w w')
          \<and> \<not> precedes is_flag_raise is_token_request (new_events w w'))
       \<and> (\<forall>e' self1 w2. refresh_session env self w1 = (Inl e', self1, w2) \<longrightarrow>
            filter is_flag_raise (new_events w w') = [])"
proof (intro conjI allI impI)
  fix u self1 w2
  assume rs: "refresh_session env self w1 = (Inr u, self1, w2)"
  have st: "stale_auth (TransportProtocolError m)" by simp
  from query_retry_trace [OF assms(2) st assms(3) rs assms(1)]
  obtain t evs logs where
    *: "new_events w w' =
         EvExecute (session self) q p (Inl (TransportProtocolError m)) # EvGetAccessToken t # evs @
         EvSetReauthenticated True # EvExecute (session self1) q p r # logs @
         [EvSetReauthenticated False, EvSetReauthenticated False]"
      "new_events w1 w2 = EvGetAccessToken t # evs"
      "list_all (\<lambda>ev. is_log ev \<or> is_connect ev) evs"
      "list_all is_log logs" by blast
  from * show "\<exists>logs. new_events w w' =
                EvExecute (session self) q p (Inl (TransportProtocolError m)) # new_events w1 w2 @
                EvSetReauthenticated True # EvExecute (session self1) q p r # logs @
                [EvSetReauthenticated False, EvSetReauthenticated False]
              \<and> list_all is_log logs"
    by auto
  from * show "rebuilds (new_events w1 w2) = 1"
    using filter_logs_connects [of evs] by (simp add: rebuilds_def)
  from * show "filter is_flag_set (new_events w1 w2) = []"
    using filter_logs_connects [of evs] by simp
  from retry_order [OF *(3,4,1)]
  show "precedes is_token_request is_flag_raise (new_events w w')"
    and "\<not> precedes is_flag_raise is_token_request (new_events w w')"
    by simp_all
next
  fix e' self1 w2
  assume rs: "refresh_session env self w1 = (Inl e', self1, w2)"
  have st: "stale_auth (TransportProtocolError m)" by simp
  from query_rebuild_fails_trace [OF assms(2) st assms(3) rs assms(1)]
  obtain t evs where
    "new_events w w' =
       EvExecute (session self) q p (Inl (TransportProtocolError m)) # EvGetAccessToken t # evs @
       [EvSetReauthenticated False]"
    "list_all (\<lambda>ev. is_log ev \<or> is_connect ev) evs" by blast
  then show "filter is_flag_raise (new_events w w') = []"
    using filter_flag_raise_logs_connects [of evs] by simp
qed

theorem rebuild_then_flag_then_retry_witness:
  "fst (session_execute scripted_env (session self0) q0 p0 stale_then_ok) =
     Inl (TransportProtocolError ''bad'')
   \<and> \<not> reauthenticated self0
   \<and> precedes is_token_request is_flag_raise
        (new_events stale_then_ok (snd (snd (query scripted_env self0 q0 p0 stale_then_ok))))
   \<and> \<not> precedes is_flag_raise is_token_request
        (new_events stale_then_ok (snd (snd (query scripted_env self0 q0 p0 stale_then_ok))))
   \<and> fst (session_execute scripted_env (session self0) q0 p0 stale_then_denied) =
       Inl (TransportProtocolError ''bad'')
   \<and> filter is_flag_raise
        (new_events stale_then_denied (snd (snd (query scripted_env self0 q0 p0 stale_then_denied)))) = []"
proof -
  have fl: "\<not> reauthenticated self0"
    by (simp add: self0_def)
  note a = rebuild_then_flag_then_retry [OF run_stale_then_ok first_attempt_stale_then_ok fl]
  note b = rebuild_then_flag_then_retry [OF run_stale_then_denied first_attempt_stale_then_denied fl]
  from a rebuild_stale_then_ok
  have 1: "precedes is_token_request is_flag_raise
        (new_events stale_then_ok (snd (snd (query scripted_env self0 q0 p0 stale_then_ok))))"
    and 2: "\<not> precedes is_flag_raise is_token_request
        (new_events stale_then_ok (snd (snd (query scripted_env self0 q0 p0 stale_then_ok))))"
    by (simp_all add: run_stale_then_ok)
  from b rebuild_stale_then_denied
  have 3: "filter is_flag_raise
        (new_events stale_then_denied (snd (snd (query scripted_env self0 q0 p0 stale_then_denied)))) = []"
    by (simp add: run_stale_then_denied)
  from 1 2 3 fl show ?thesis
    by (simp add: first_attempt_stale_then_ok first_attempt_stale_then_denied)
qed

subsection \<open>C7: the schema file and the token\<close>

text \<open>
  Claim C7. A successful construction of the object (\<^verbatim>\<open>__init__\<close>) reads the
  schema file at \<^verbatim>\<open>PATH_TO_GRAPHQL_SCHEMA\<close> exactly once and keeps its parse as
  \<^verbatim>\<open>self.document\<close>. A session rebuild never reads a file and asks for a token
  exactly once; when it returns, the new client is made of a transport whose
  header carries the token just obtained and of the schema built from the
  document already held, and the new session is the one \<^verbatim>\<open>connect_sync\<close> gave
  for that client. A call of \<^verbatim>\<open>query\<close> never reads a file.
\<close>

theorem schema_read_once_token_per_build:
  "(\<forall>obj w'. init env w = (Inr obj, w') \<longrightarrow>
      (\<exists>source. filter is_read_file (new_events w w') =
                   [EvReadFile (PATH_TO_GRAPHQL_SCHEMA env) (Inr source)]
               \<and> parse env source = Inr (document obj))
      \<and> length (filter is_token_request (new_events w w')) = 1)
 \<and> (\<forall>r self1 w1. refresh_session env self w = (r, self1, w1) \<longrightarrow>
      filter is_read_file (new_events w w1) = []
      \<and> length (filter is_token_request (new_events w w1)) = 1)
 \<and> (\<forall>u self1 w1. refresh_session env self w = (Inr u, self1, w1) \<longrightarrow>
      (\<exists>token gschema.
          new_events w w1 =
            [EvGetAccessToken (Inr token), EvConnectSync (client self1) (Inr (session self1))]
        \<and> build_ast_schema env (document self) = Inr gschema
        \<and> client self1 =
            Client (HTTPXTransport (ROBOT_API_URL env) [(''authorization'', ''Bearer '' @ token)]) gschema))
 \<and> (\<forall>r self' w'. query env self q p w = (r, self', w') \<longrightarrow>
      filter is_read_file (new_events w w') = [])"
proof (intro conjI allI impI)
  fix obj w'
  assume i: "init env w = (Inr obj, w')"
  let ?w0 = "emit (EvSetReauthenticated False) w"
  from i have "initialize_session env False ?w0 = (Inr obj, w')"
    by (simp add: init_def)
  from initialize_session_trace [OF this] obtain token source gschema where
    *: "trace w' = trace ?w0 @
             [EvGetAccessToken (Inr token), EvReadFile (PATH_TO_GRAPHQL_SCHEMA env) (Inr source),
              EvConnectSync (client obj) (Inr (session obj))]"
       "parse env source = Inr (document obj)" by blast
  from *(1) have "trace w' = trace w @
             [EvSetReauthenticated False,
              EvGetAccessToken (Inr token), EvReadFile (PATH_TO_GRAPHQL_SCHEMA env) (Inr source),
              EvConnectSync (client obj) (Inr (session obj))]"
    by simp
  then have ev: "new_events w w' =
             [EvSetReauthenticated False,
              EvGetAccessToken (Inr token), EvReadFile (PATH_TO_GRAPHQL_SCHEMA env) (Inr source),
              EvConnectSync (client obj) (Inr (session obj))]"
    by (rule new_events_append)
  from ev *(2)
  show "\<exists>source. filter is_read_file (new_events w w') =
                   [EvReadFile (PATH_TO_GRAPHQL_SCHEMA env) (Inr source)]
               \<and> parse env source = Inr (document obj)"
    by simp
  from ev show "length (filter is_token_request (new_events w w')) = 1"
    by simp
next
  fix r self1 w1
  assume "refresh_session env self w = (r, self1, w1)"
  from refresh_session_counts [OF this]
  show "filter is_read_file (new_events w w1) = []"
    and "length (filter is_token_request (new_events w w1)) = 1"
    by (simp_all add: rebuilds_def)
next
  fix u self1 w1
  assume "refresh_session env self w = (Inr u, self1, w1)"
  from refresh_session_ok_trace [OF this]
  show "\<exists>token gschema.
          new_events w w1 =
            [EvGetAccessToken (Inr token), EvConnectSync (client self1) (Inr (session self1))]
        \<and> build_ast_schema env (document self) = Inr gschema
        \<and> client self1 =
            Client (HTTPXTransport (ROBOT_API_URL env) [(''authorization'', ''Bearer '' @ token)]) gschema" .
next
  fix r self' w'
  assume "query env self q p w = (r, self', w')"
  from query_reads_no_file [OF this]
  show "filter is_read_file (new_events w w') = []" .
qed

theorem schema_read_once_token_per_build_witness:
  "fst (init scripted_env (start ([Inr ''t0''], []))) = Inr self0
   \<and> filter is_read_file
        (new_events (start ([Inr ''t0''], [])) (snd (init scripted_env (start ([Inr ''t0''], []))))) =
       [EvReadFile ''schema.graphql'' (Inr ''type Query'')]
   \<and> fst (refresh_session scripted_env self0 (start ([Inr ''t1''], []))) = Inr ()
   \<and> filter is_read_file
        (new_events (start ([Inr ''t1''], []))
           (snd (snd (refresh_session scripted_env self0 (start ([Inr ''t1''], [])))))) = []
   \<and> client (fst (snd (refresh_session scripted_env self0 (start ([Inr ''t1''], []))))) =
       Client (HTTPXTransport ''https://robot.example/graphql'' [(''authorization'', ''Bearer t1'')])
              (GraphQLSchema ''type Query'')
   \<and> filter is_read_file
        (new_events stale_then_ok (snd (snd (query scripted_env self0 q0 p0 stale_then_ok)))) = []"
proof -
  note main = schema_read_once_token_per_build
  note a = main [of scripted_env "start ([Inr ''t0''], [])" self0 q0 p0,
                THEN conjunct1, rule_format, OF run_init]
  note b = main [of scripted_env "start ([Inr ''t1''], [])" self0 q0 p0,
                THEN conjunct2, THEN conjunct1, rule_format, OF rebuild_fresh]
  note c = main [of scripted_env stale_then_ok self0 q0 p0,
                THEN conjunct2, THEN conjunct2, THEN conjunct2, rule_format, OF run_stale_then_ok]
  from a
  have 1: "filter is_read_file
        (new_events (start ([Inr ''t0''], [])) (snd (init scripted_env (start ([Inr ''t0''], []))))) =
       [EvReadFile ''schema.graphql'' (Inr ''type Query'')]"
    by (simp add: run_init) (simp add: start_def new_events_def)
  from b
  have 2: "filter is_read_file
        (new_events (start ([Inr ''t1''], []))
           (snd (snd (refresh_session scripted_env self0 (start ([Inr ''t1''], [])))))) = []"
    by (simp add: rebuild_fresh)
  from c
  have 3: "filter is_read_file
        (new_events stale_then_ok (snd (snd (query scripted_env self0 q0 p0 stale_then_ok)))) = []"
    by (simp add: run_stale_then_ok)
  from 1 2 3 show ?thesis
    by (simp add: run_init rebuild_fresh client_with_def)
qed

end
